theory Spec2Isabelle
  imports Complex_Main
begin

section \<open>Data model of fetch-daily-mood.ts\<close>

text \<open>
  The interfaces of the source become records. A JavaScript \<open>number\<close> is a double; the
  model holds a finite one as a \<^typ>\<open>real\<close>, and the section on numbers below says
  how. An array length is a \<^typ>\<open>nat\<close>. The field \<open>id\<close> of \<open>SpotifyTrack\<close>
  and of \<open>AudioFeatures\<close> and the field \<open>name\<close> of \<open>SpotifyTrack\<close> are prefixed:
  \<open>id\<close> is the identity function of HOL, and the records share one name space.
\<close>

record SpotifyTrack =
  track_id :: string
  track_name :: string
  artists :: "string list"
  playedAt :: string

record AudioFeatures =
  features_id :: string
  valence :: real
  energy :: real
  acousticness :: real
  danceability :: real
  tempo :: real

record MoodData =
  avgValence :: real
  avgEnergy :: real
  avgAcousticness :: real
  trackCount :: nat
  analyzedCount :: nat

datatype element = FIRE | WATER | AIR | EARTH | AETHER

record ElementData =
  name :: element
  gradient :: string
  description :: string
  mood :: MoodData
  date :: string
  tracks :: "SpotifyTrack list"

subsection \<open>The JavaScript \<open>Map\<close>\<close>

text \<open>
  A \<open>Map\<close> keeps its entries in insertion order. \<open>set\<close> on a key that is present
  replaces the value and leaves the entry where it is; on a new key it appends the entry.
  So a \<open>Map\<close> is an association list, built by \<open>Map_set\<close> only.
\<close>

type_synonym ('k, 'v) js_map = "('k \<times> 'v) list"

fun Map_set :: "('k, 'v) js_map \<Rightarrow> 'k \<Rightarrow> 'v \<Rightarrow> ('k, 'v) js_map" where
  "Map_set [] k v = [(k, v)]"
| "Map_set ((k', v') # m) k v =
     (if k' = k then (k, v) # m else (k', v') # Map_set m k v)"

definition Map_get :: "('k, 'v) js_map \<Rightarrow> 'k \<Rightarrow> 'v option" where
  "Map_get m k = map_of m k"

definition Map_size :: "('k, 'v) js_map \<Rightarrow> nat" where
  "Map_size m = length m"

definition Map_values :: "('k, 'v) js_map \<Rightarrow> 'v list" where
  "Map_values m = map snd m"

text \<open>\<open>new Map(entries)\<close>: the entries are set one after the other, from the left.\<close>

definition Map_new :: "('k \<times> 'v) list \<Rightarrow> ('k, 'v) js_map" where
  "Map_new entries = foldl (\<lambda>m (k, v). Map_set m k v) [] entries"

section \<open>Numbers\<close>

text \<open>
  The source computes in binary64. \<open>round64\<close> is the finite double nearest to a real,
  ties going to the even significand: the real is brought to \<open>m * 2 ^ e\<close> with
  \<open>2 ^ 52 \<le> m < 2 ^ 53\<close>, or with \<open>e = - 1074\<close> in the subnormal range, and \<open>m\<close> is
  rounded to an integer. The 2200 steps of \<open>scale\<close> reach every exponent of a double.
  A result beyond the largest double, which the source holds as \<open>Infinity\<close>, is outside
  the model; it needs a metric above \<open>10 ^ 300\<close>, where the metrics are in [0, 1].
\<close>

definition pow2 :: "int \<Rightarrow> real" where
  "pow2 e = (if 0 \<le> e then 2 ^ nat e else 1 / 2 ^ nat (- e))"

definition round_half_even :: "real \<Rightarrow> int" where
  "round_half_even m =
     (let f = \<lfloor>m\<rfloor>; r = m - of_int f
      in if r < 1 / 2 then f else if 1 / 2 < r then f + 1 else if even f then f else f + 1)"

fun scale :: "nat \<Rightarrow> real \<Rightarrow> int \<Rightarrow> real \<times> int" where
  "scale n x e =
     (if n = 0 then (x, e)
      else if 2 ^ 53 \<le> x then scale (n - 1) (x / 2) (e + 1)
      else if x < 2 ^ 52 \<and> - 1074 < e then scale (n - 1) (2 * x) (e - 1)
      else (x, e))"

definition round64 :: "real \<Rightarrow> real" where
  "round64 x =
     (if x = 0 then 0
      else (case scale 2200 \<bar>x\<bar> 0 of
              (m, e) \<Rightarrow> sgn x * of_int (round_half_even m) * pow2 e))"

text \<open>
  A real of the model stands for the double nearest to it, as a decimal literal or a
  number in a JSON text does. \<open>mapToElement\<close> compares the averages with the literals
  0.7, 0.6, 0.5 and 0.4, as reals. So the model holds a double as its value, but for
  the doubles of these four literals, which it holds as the decimal values: comparing
  the reals then gives what comparing the doubles gives in the source. The case that
  needs it is the double of 0.6: its value is below 0.6, and \<open>avgValence < 0.6\<close> is
  false for it in the source, the literal being the same double.
\<close>

definition literals :: "real list" where
  "literals = [0.7, 0.6, 0.5, 0.4]"

definition number :: "real \<Rightarrow> real" where
  "number x =
     (case find (\<lambda>t. round64 t = round64 x) literals of
        Some t \<Rightarrow> t
      | None \<Rightarrow> round64 x)"

text \<open>\<open>a + b\<close> and \<open>a / b\<close> on numbers: the exact result of the two doubles, rounded.\<close>

definition add64 :: "real \<Rightarrow> real \<Rightarrow> real" where
  "add64 a b = number (round64 a + round64 b)"

definition div64 :: "real \<Rightarrow> real \<Rightarrow> real" where
  "div64 a b = number (round64 a / round64 b)"

section \<open>The aggregator\<close>

text \<open>
  \<open>calculateAggregateMood\<close> fills three arrays in one \<open>forEach\<close> over the tracks; the
  arrays are the state of the loop. \<open>if (features)\<close> tests the result of \<open>Map.get\<close>,
  \<open>undefined\<close> for a key that is absent and an object, which is truthy, otherwise.
\<close>

record mood_arrays =
  valences :: "real list"
  energies :: "real list"
  acousticnesses :: "real list"

definition collect :: "(string, AudioFeatures) js_map \<Rightarrow> mood_arrays \<Rightarrow> SpotifyTrack \<Rightarrow> mood_arrays" where
  "collect audioFeatures acc track =
     (case Map_get audioFeatures (track_id track) of
        None \<Rightarrow> acc
      | Some features \<Rightarrow>
          \<lparr>valences = valences acc @ [valence features],
           energies = energies acc @ [energy features],
           acousticnesses = acousticnesses acc @ [acousticness features]\<rparr>)"

text \<open>
  \<open>arr.reduce((a, b) => a + b, 0) / arr.length\<close>. On the empty array the source
  yields \<open>NaN\<close>; the only calls are behind the guard \<open>valences.length === 0\<close>.
\<close>

definition average :: "real list \<Rightarrow> real" where
  "average arr = div64 (foldl (\<lambda>a b. add64 a b) 0 arr) (real (length arr))"

definition calculateAggregateMood ::
  "SpotifyTrack list \<Rightarrow> (string, AudioFeatures) js_map \<Rightarrow> MoodData option" where
  "calculateAggregateMood trks audioFeatures =
     (if length trks = 0 \<or> Map_size audioFeatures = 0 then None
      else
        let acc = foldl (collect audioFeatures)
                    \<lparr>valences = [], energies = [], acousticnesses = []\<rparr> trks
        in if length (valences acc) = 0 then None
           else Some \<lparr>avgValence = average (valences acc),
                      avgEnergy = average (energies acc),
                      avgAcousticness = average (acousticnesses acc),
                      trackCount = length trks,
                      analyzedCount = length (valences acc)\<rparr>)"

section \<open>The classifier\<close>

text \<open>
  \<open>mapToElement\<close> reads the clock (\<open>new Date().toISOString()\<close>); the string it gets is
  the parameter \<open>now\<close>.
\<close>

definition mapToElement :: "MoodData \<Rightarrow> SpotifyTrack list \<Rightarrow> string \<Rightarrow> ElementData" where
  "mapToElement md trks now =
     (if avgEnergy md > 0.7 \<and> avgValence md > 0.6 then
        \<lparr>name = FIRE,
         gradient = ''linear-gradient(135deg, #ff6b00 0%, #ff0000 50%, #ffaa00 100%)'',
         description = ''Euphoric & Intense'',
         mood = md, date = now, tracks = trks\<rparr>
      else if avgEnergy md < 0.5 \<and> avgValence md < 0.6 then
        \<lparr>name = WATER,
         gradient = ''linear-gradient(135deg, #000814 0%, #003566 50%, #001d3d 100%)'',
         description = ''Flowing & Emotional'',
         mood = md, date = now, tracks = trks\<rparr>
      else if avgValence md > 0.6 \<and> avgEnergy md \<ge> 0.4 \<and> avgEnergy md \<le> 0.7 then
        \<lparr>name = AIR,
         gradient = ''linear-gradient(135deg, #e0f7ff 0%, #87ceeb 50%, #b8d4e6 100%)'',
         description = ''Light & Uplifting'',
         mood = md, date = now, tracks = trks\<rparr>
      else if avgAcousticness md > 0.5 \<and> avgEnergy md < 0.5 then
        \<lparr>name = AETHER,
         gradient = ''linear-gradient(135deg, #0a0014 0%, #1a0033 50%, #2d1b47 100%)'',
         description = ''Ethereal & Transcendent'',
         mood = md, date = now, tracks = trks\<rparr>
      else
        \<lparr>name = EARTH,
         gradient = ''linear-gradient(135deg, #0d1b0d 0%, #1a3319 50%, #0f2511 100%)'',
         description = ''Grounded & Melancholic'',
         mood = md, date = now, tracks = trks\<rparr>)"

text \<open>
  The classifier as the specification words it: an ordered list of rules, each a
  predicate with its label, the first match winning and EARTH the fallback.
\<close>

definition spec_rules :: "((MoodData \<Rightarrow> bool) \<times> element) list" where
  "spec_rules =
     [(\<lambda>md. avgEnergy md > 0.7 \<and> avgValence md > 0.6, FIRE),
      (\<lambda>md. avgEnergy md < 0.5 \<and> avgValence md < 0.6, WATER),
      (\<lambda>md. avgValence md > 0.6 \<and> 0.4 \<le> avgEnergy md \<and> avgEnergy md \<le> 0.7, AIR),
      (\<lambda>md. avgAcousticness md > 0.5 \<and> avgEnergy md < 0.5, AETHER)]"

fun first_match :: "((MoodData \<Rightarrow> bool) \<times> element) list \<Rightarrow> MoodData \<Rightarrow> element" where
  "first_match [] md = EARTH"
| "first_match ((p, l) # rules) md = (if p md then l else first_match rules md)"

definition spec_classify :: "MoodData \<Rightarrow> element" where
  "spec_classify md = first_match spec_rules md"

section \<open>The requests\<close>

text \<open>
  An \<open>async\<close> function returns a promise, which either rejects with the value thrown
  (\<open>Inl\<close>) or resolves (\<open>Inr\<close>). The answer to a \<open>fetch\<close> is a value of the model:
  the request fails in transport, or a response arrives with its status and the outcome
  of \<open>response.json()\<close>, \<open>None\<close> when the body does not parse. \<open>response.ok\<close> holds for
  a status from 200 to 299.
\<close>

datatype exn = Error string | FetchError | JsonError | TypeError

type_synonym 'a promise = "exn + 'a"

datatype 'd http = NetworkError | Http nat "'d option"

definition ok :: "nat \<Rightarrow> bool" where
  "ok status = (200 \<le> status \<and> status \<le> 299)"

text \<open>A string or \<open>undefined\<close>/\<open>null\<close> under \<open>!\<close>: absent and empty strings are falsy.\<close>

definition falsy :: "string option \<Rightarrow> bool" where
  "falsy s = (case s of None \<Rightarrow> True | Some v \<Rightarrow> v = [])"

subsection \<open>\<open>getAccessToken\<close>\<close>

text \<open>
  The payload of the token endpoint is its \<open>access_token\<close>, \<open>None\<close> when the field is
  missing. The \<open>catch\<close> logs and throws again. The result is the new value of
  \<open>this.accessToken\<close>.
\<close>

definition getAccessToken :: "string option http \<Rightarrow> string option promise" where
  "getAccessToken response =
     (case response of
        NetworkError \<Rightarrow> Inl FetchError
      | Http status body \<Rightarrow>
          if \<not> ok status then Inl (Error ''Failed to get access token'')
          else (case body of
                  None \<Rightarrow> Inl JsonError
                | Some access_token \<Rightarrow> Inr access_token))"

subsection \<open>\<open>getRecentlyPlayed\<close>\<close>

record history_item =
  item_track_id :: string
  item_track_name :: string
  item_artist_names :: "string list"
  played_at :: string

definition to_track :: "history_item \<Rightarrow> SpotifyTrack" where
  "to_track item =
     \<lparr>track_id = item_track_id item, track_name = item_track_name item,
      artists = item_artist_names item, playedAt = played_at item\<rparr>"

text \<open>
  The body of the \<open>try\<close>. The payload is \<open>data.items\<close>, \<open>None\<close> when it is not an
  array, where \<open>data.items.map\<close> throws a \<open>TypeError\<close>.
\<close>

definition recentlyPlayed_try :: "history_item list option http \<Rightarrow> SpotifyTrack list promise" where
  "recentlyPlayed_try response =
     (case response of
        NetworkError \<Rightarrow> Inl FetchError
      | Http status body \<Rightarrow>
          if \<not> ok status then Inl (Error ''Failed to fetch recently played'')
          else (case body of
                  None \<Rightarrow> Inl JsonError
                | Some items \<Rightarrow>
                    (case items of
                       None \<Rightarrow> Inl TypeError
                     | Some its \<Rightarrow> Inr (map to_track its))))"

text \<open>The test of the access token is before the \<open>try\<close>; the \<open>catch\<close> returns \<open>[]\<close>.\<close>

definition getRecentlyPlayed ::
  "string option \<Rightarrow> history_item list option http \<Rightarrow> SpotifyTrack list promise" where
  "getRecentlyPlayed accessToken response =
     (if falsy accessToken then Inl (Error ''Access token not set'')
      else (case recentlyPlayed_try response of
              Inl error \<Rightarrow> Inr []
            | Inr trks \<Rightarrow> Inr trks))"

subsection \<open>\<open>getSoundStatAudioFeatures\<close>\<close>

text \<open>
  The payload of the analysis service is \<open>data.features\<close>, \<open>None\<close> when it is falsy,
  with its five numbers: valence, energy, acousticness, danceability, tempo.
\<close>

datatype features_json = FeaturesJson real real real real real

definition uniqueTracks :: "SpotifyTrack list \<Rightarrow> SpotifyTrack list" where
  "uniqueTracks trks = Map_values (Map_new (map (\<lambda>track. (track_id track, track)) trks))"

text \<open>
  The body of the \<open>try\<close> in the loop, from the response to the new \<open>featuresMap\<close>. On
  a response that is not \<open>ok\<close> the loop goes on with \<open>continue\<close>, and with the
  \<open>catch\<close> if reading the error text throws: the map is the same either way.
\<close>

definition analyse_try ::
  "features_json option http \<Rightarrow> (string, AudioFeatures) js_map \<Rightarrow> SpotifyTrack
     \<Rightarrow> (string, AudioFeatures) js_map promise" where
  "analyse_try response featuresMap track =
     (case response of
        NetworkError \<Rightarrow> Inl FetchError
      | Http status body \<Rightarrow>
          if \<not> ok status then Inr featuresMap
          else (case body of
                  None \<Rightarrow> Inl JsonError
                | Some features \<Rightarrow>
                    (case features of
                       None \<Rightarrow> Inr featuresMap
                     | Some (FeaturesJson v e a d t) \<Rightarrow>
                         Inr (Map_set featuresMap (track_id track)
                                \<lparr>features_id = track_id track, valence = v, energy = e,
                                 acousticness = a, danceability = d, tempo = t\<rparr>))))"

text \<open>
  One iteration: the \<open>try\<close> with its \<open>catch\<close>, which logs the error and goes on with the
  map as it was.
\<close>

definition analyse_iteration ::
  "features_json option http \<Rightarrow> (string, AudioFeatures) js_map \<Rightarrow> SpotifyTrack
     \<Rightarrow> (string, AudioFeatures) js_map promise" where
  "analyse_iteration response featuresMap track =
     (case analyse_try response featuresMap track of
        Inl error \<Rightarrow> Inr featuresMap
      | Inr m \<Rightarrow> Inr m)"

text \<open>
  The state of the loop: the map, and the identifiers requested so far, in order. The
  service is a function from the identifier in the URL to its answer; no identifier is
  requested twice, the tracks of the loop being unique. The index \<open>i\<close> of the source
  is used in log lines only, so the loop runs over the list. An error that an
  iteration did not catch would end the loop and reject the promise.
\<close>

record enrich_state =
  featuresMap :: "(string, AudioFeatures) js_map"
  requested :: "string list"

fun enrich_loop ::
  "(string \<Rightarrow> features_json option http) \<Rightarrow> SpotifyTrack list \<Rightarrow> enrich_state
     \<Rightarrow> enrich_state promise" where
  "enrich_loop service [] s = Inr s"
| "enrich_loop service (track # rest) s =
     (case analyse_iteration (service (track_id track)) (featuresMap s) track of
        Inl error \<Rightarrow> Inl error
      | Inr m \<Rightarrow>
          enrich_loop service rest
            \<lparr>featuresMap = m, requested = requested s @ [track_id track]\<rparr>)"

text \<open>
  The source returns \<open>featuresMap\<close>; the model returns the state of the loop, which
  holds it.
\<close>

definition getSoundStatAudioFeatures ::
  "(string \<Rightarrow> features_json option http) \<Rightarrow> SpotifyTrack list \<Rightarrow> enrich_state promise" where
  "getSoundStatAudioFeatures service trks =
     enrich_loop service (uniqueTracks trks) \<lparr>featuresMap = [], requested = []\<rparr>"

section \<open>The pipeline\<close>

record world =
  token_response :: "string option http"
  history_response :: "history_item list option http"
  soundstat :: "string \<Rightarrow> features_json option http"
  clock :: string

definition analyzeDailyMood :: "world \<Rightarrow> ElementData option promise" where
  "analyzeDailyMood w =
     (case getAccessToken (token_response w) of
        Inl error \<Rightarrow> Inl error
      | Inr accessToken \<Rightarrow>
          (case getRecentlyPlayed accessToken (history_response w) of
             Inl error \<Rightarrow> Inl error
           | Inr trks \<Rightarrow>
               if length trks = 0 then Inr None
               else (case getSoundStatAudioFeatures (soundstat w) trks of
                       Inl error \<Rightarrow> Inl error
                     | Inr s \<Rightarrow>
                         (case calculateAggregateMood trks (featuresMap s) of
                            None \<Rightarrow> Inr None
                          | Some md \<Rightarrow> Inr (Some (mapToElement md trks (clock w)))))))"

text \<open>\<open>s.includes(p)\<close>: \<open>p\<close> occurs in \<open>s\<close> as a contiguous run.\<close>

fun includes_str :: "string \<Rightarrow> string \<Rightarrow> bool" where
  "includes_str [] p = (p = [])"
| "includes_str (c # s) p = (take (length p) (c # s) = p \<or> includes_str s p)"

record environment =
  SPOTIFY_CLIENT_ID :: "string option"
  SPOTIFY_CLIENT_SECRET :: "string option"
  SPOTIFY_REFRESH_TOKEN :: "string option"

text \<open>
  The test of \<open>main\<close>; \<open>||\<close> evaluates the \<open>includes\<close> calls only when the three
  values are non-empty strings.
\<close>

definition credentials_missing :: "environment \<Rightarrow> bool" where
  "credentials_missing env =
     (if falsy (SPOTIFY_CLIENT_ID env) \<or> falsy (SPOTIFY_CLIENT_SECRET env)
         \<or> falsy (SPOTIFY_REFRESH_TOKEN env) then True
      else includes_str (the (SPOTIFY_CLIENT_ID env)) ''YOUR_''
         \<or> includes_str (the (SPOTIFY_CLIENT_SECRET env)) ''YOUR_''
         \<or> includes_str (the (SPOTIFY_REFRESH_TOKEN env)) ''YOUR_'')"

text \<open>
  What a run leaves: the exit status of the process and the object written to
  \<open>current_mood.json\<close>, if any. \<open>process.exit(1)\<close> is the one place that sets a status;
  a rejection of \<open>main()\<close> is handled by \<open>.catch(console.error)\<close>, which logs it. The
  write itself is taken to succeed.
\<close>

record run =
  exit_status :: nat
  current_mood_json :: "ElementData option"

definition main :: "environment \<Rightarrow> world \<Rightarrow> run" where
  "main env w =
     (if credentials_missing env then \<lparr>exit_status = 1, current_mood_json = None\<rparr>
      else (case analyzeDailyMood w of
              Inl error \<Rightarrow> \<lparr>exit_status = 0, current_mood_json = None\<rparr>
            | Inr elementData \<Rightarrow>
                (case elementData of
                   None \<Rightarrow> \<lparr>exit_status = 0, current_mood_json = None\<rparr>
                 | Some e \<Rightarrow> \<lparr>exit_status = 0, current_mood_json = Some e\<rparr>)))"

section \<open>Notions used in the statements\<close>

text \<open>
  The occurrences of tracks, in input order and with repetition, whose identifier has
  an entry in the features mapping; the value of a metric the mapping holds for a track;
  the arithmetic mean of a list of numbers.
\<close>

definition analyzed :: "(string, AudioFeatures) js_map \<Rightarrow> SpotifyTrack list \<Rightarrow> SpotifyTrack list" where
  "analyzed m trks = filter (\<lambda>track. Map_get m (track_id track) \<noteq> None) trks"

definition metric_of ::
  "(AudioFeatures \<Rightarrow> real) \<Rightarrow> (string, AudioFeatures) js_map \<Rightarrow> SpotifyTrack \<Rightarrow> real" where
  "metric_of f m track = f (the (Map_get m (track_id track)))"

definition mean :: "real list \<Rightarrow> real" where
  "mean xs = sum_list xs / real (length xs)"

text \<open>
  The numbers of a list are doubles, and so are the sums of its initial segments and
  its length: no addition of \<open>average\<close> rounds.
\<close>

definition exact_sums :: "real list \<Rightarrow> bool" where
  "exact_sums xs =
     (list_all (\<lambda>x. round64 x = x) xs
      \<and> list_all (\<lambda>i. round64 (sum_list (take i xs)) = sum_list (take i xs))
            [0..<Suc (length xs)]
      \<and> round64 (real (length xs)) = real (length xs))"

text \<open>The three metrics of every entry of a features mapping are in [0, 1].\<close>

definition unit_metrics :: "(string, AudioFeatures) js_map \<Rightarrow> bool" where
  "unit_metrics m =
     list_all (\<lambda>(k, f). 0 \<le> valence f \<and> valence f \<le> 1 \<and> 0 \<le> energy f \<and> energy f \<le> 1
                 \<and> 0 \<le> acousticness f \<and> acousticness f \<le> 1) m"

text \<open>
  The elements of a list in the order of their first occurrence, each once; the last
  track of a sequence that bears a given identifier.
\<close>

definition first_occurrences :: "'a list \<Rightarrow> 'a list" where
  "first_occurrences ks = rev (remdups (rev ks))"

definition last_with_id :: "SpotifyTrack list \<Rightarrow> string \<Rightarrow> SpotifyTrack" where
  "last_with_id trks k = last (filter (\<lambda>track. track_id track = k) trks)"

text \<open>
  A request to the analysis service fails when the transport fails, the status is not
  a success, the body does not parse or the payload has no features object. Otherwise
  it delivers the features object.
\<close>

definition request_fails :: "features_json option http \<Rightarrow> bool" where
  "request_fails response =
     (case response of
        NetworkError \<Rightarrow> True
      | Http status body \<Rightarrow> \<not> ok status \<or> body = None \<or> body = Some None)"

definition delivered :: "features_json option http \<Rightarrow> features_json option" where
  "delivered response =
     (case response of
        NetworkError \<Rightarrow> None
      | Http status body \<Rightarrow>
          if ok status then (case body of None \<Rightarrow> None | Some features \<Rightarrow> features)
          else None)"

fun to_features :: "string \<Rightarrow> features_json \<Rightarrow> AudioFeatures" where
  "to_features k (FeaturesJson v e a d t) =
     \<lparr>features_id = k, valence = v, energy = e, acousticness = a, danceability = d, tempo = t\<rparr>"

text \<open>
  Two features mappings have the same identifiers and, for each of them, the same
  valence, energy and acousticness; danceability and tempo are free.
\<close>

definition same_mood_metrics ::
  "(string, AudioFeatures) js_map \<Rightarrow> (string, AudioFeatures) js_map \<Rightarrow> bool" where
  "same_mood_metrics m1 m2 =
     (\<forall>k \<in> set (map fst m1) \<union> set (map fst m2).
        case (Map_get m1 k, Map_get m2 k) of
          (Some f, Some g) \<Rightarrow>
            valence f = valence g \<and> energy f = energy g \<and> acousticness f = acousticness g
        | _ \<Rightarrow> False)"

text \<open>How often an identifier occurs in a sequence of tracks.\<close>

definition plays :: "SpotifyTrack list \<Rightarrow> string \<Rightarrow> nat" where
  "plays trks k = length (filter (\<lambda>track. track_id track = k) trks)"

subsection \<open>Example inputs\<close>

text \<open>
  Two plays of the same track, most recent first as the history endpoint returns them,
  and two other tracks; a features mapping for the first two identifiers, a second
  one that differs from it in danceability and tempo only, and a third one with the
  valences 0.4 and 0.8; an analysis service that
  answers 404 for the first identifier; a configured environment and a run in which
  the history endpoint answers 401.
\<close>

definition track_a1 :: SpotifyTrack where
  "track_a1 = \<lparr>track_id = ''a'', track_name = ''Alpha'', artists = [''X''],
               playedAt = ''2026-01-02T10:00:00.000Z''\<rparr>"

definition track_a2 :: SpotifyTrack where
  "track_a2 = \<lparr>track_id = ''a'', track_name = ''Alpha'', artists = [''X''],
               playedAt = ''2026-01-02T09:00:00.000Z''\<rparr>"

definition track_b :: SpotifyTrack where
  "track_b = \<lparr>track_id = ''b'', track_name = ''Beta'', artists = [''Y''],
              playedAt = ''2026-01-02T08:00:00.000Z''\<rparr>"

definition track_c :: SpotifyTrack where
  "track_c = \<lparr>track_id = ''c'', track_name = ''Gamma'', artists = [''Z''],
              playedAt = ''2026-01-02T07:00:00.000Z''\<rparr>"

definition features_ab :: "(string, AudioFeatures) js_map" where
  "features_ab =
     [(''a'', \<lparr>features_id = ''a'', valence = 0.75, energy = 0.75, acousticness = 0.25,
              danceability = 0.5, tempo = 120\<rparr>),
      (''b'', \<lparr>features_id = ''b'', valence = 0.25, energy = 0.25, acousticness = 0.75,
              danceability = 0.5, tempo = 90\<rparr>)]"

definition features_ab' :: "(string, AudioFeatures) js_map" where
  "features_ab' =
     [(''a'', \<lparr>features_id = ''a'', valence = 0.75, energy = 0.75, acousticness = 0.25,
              danceability = 0.125, tempo = 60\<rparr>),
      (''b'', \<lparr>features_id = ''b'', valence = 0.25, energy = 0.25, acousticness = 0.75,
              danceability = 1, tempo = 200\<rparr>)]"

definition features_04_08 :: "(string, AudioFeatures) js_map" where
  "features_04_08 =
     [(''a'', \<lparr>features_id = ''a'', valence = 0.4, energy = 0.8, acousticness = 0.1,
              danceability = 0.5, tempo = 120\<rparr>),
      (''b'', \<lparr>features_id = ''b'', valence = 0.8, energy = 0.8, acousticness = 0.1,
              danceability = 0.5, tempo = 90\<rparr>)]"

definition service_404_a :: "string \<Rightarrow> features_json option http" where
  "service_404_a k =
     (if k = ''a'' then Http 404 None
      else Http 200 (Some (Some (FeaturesJson 0.25 0.25 0.75 0.5 90))))"

definition env_ok :: environment where
  "env_ok = \<lparr>SPOTIFY_CLIENT_ID = Some ''id'', SPOTIFY_CLIENT_SECRET = Some ''secret'',
             SPOTIFY_REFRESH_TOKEN = Some ''refresh''\<rparr>"

definition world_401 :: world where
  "world_401 = \<lparr>token_response = Http 200 (Some (Some ''token'')),
                history_response = Http 401 None,
                soundstat = service_404_a,
                clock = ''2026-01-02T12:00:00.000Z''\<rparr>"

section \<open>Lemmas on the aggregator\<close>

declare scale.simps [simp del]

lemmas example_defs =
  track_a1_def track_a2_def track_b_def track_c_def features_ab_def features_ab'_def
  features_04_08_def

lemmas number_defs =
  round64_def scale.simps round_half_even_def pow2_def Let_def number_def literals_def
  add64_def div64_def

lemmas aggregate_defs =
  calculateAggregateMood_def Map_size_def collect_def Map_get_def

text \<open>The averages of the examples, each sum and quotient rounded.\<close>

lemma average_examples:
  "average [3 / 4, 3 / 4, 1 / 4] = 5254199565265579 / 9007199254740992"
  "average [1 / 4, 1 / 4, 3 / 4] = 7505999378950827 / 18014398509481984"
  "average [3 / 4, 1 / 4] = 1 / 2"
  "average [1 / 4, 3 / 4] = 1 / 2"
  "average [2 / 5, 4 / 5] = 5404319552844596 / 9007199254740992"
  by (simp_all add: average_def number_defs)

lemma add64_apply: "add64 a b = number (round64 a + round64 b)"
  by (simp add: add64_def)

lemma round64_number: "round64 s = s \<Longrightarrow> round64 (number s) = s"
  by (auto simp: number_def find_Some_iff split: option.splits)

text \<open>When no addition rounds, the accumulator of \<open>reduce\<close> is the exact sum.\<close>

lemma foldl_add64_exact:
  assumes "list_all (\<lambda>x. round64 x = x) xs"
    and "\<forall>i \<le> length xs. round64 (sum_list (take i xs)) = sum_list (take i xs)"
  shows "round64 (foldl add64 0 xs) = sum_list xs"
  using assms
proof (induction xs rule: rev_induct)
  case Nil
  show ?case by (simp add: round64_def)
next
  case (snoc x xs)
  have pre: "\<forall>i \<le> length xs. round64 (sum_list (take i xs)) = sum_list (take i xs)"
  proof (intro allI impI)
    fix i assume i: "i \<le> length xs"
    then have "i \<le> length (xs @ [x])" by simp
    with snoc.prems(2)
    have "round64 (sum_list (take i (xs @ [x]))) = sum_list (take i (xs @ [x]))"
      by blast
    with i show "round64 (sum_list (take i xs)) = sum_list (take i xs)" by simp
  qed
  from snoc.prems(1) have el: "list_all (\<lambda>x. round64 x = x) xs" and x: "round64 x = x"
    by simp_all
  have ih: "round64 (foldl add64 0 xs) = sum_list xs"
    by (rule snoc.IH [OF el pre])
  from snoc.prems(2)
  have "round64 (sum_list (take (length (xs @ [x])) (xs @ [x])))
        = sum_list (take (length (xs @ [x])) (xs @ [x]))"
    by blast
  then have tot: "round64 (sum_list xs + x) = sum_list xs + x" by simp
  have "foldl add64 0 (xs @ [x]) = number (round64 (foldl add64 0 xs) + round64 x)"
    by (simp only: foldl_append foldl.simps add64_apply)
  then show ?case
    by (simp only: ih x round64_number [OF tot] sum_list_append sum_list.Cons sum_list.Nil
          add_0_right)
qed

lemma average_exact: "exact_sums xs \<Longrightarrow> average xs = number (mean xs)"
proof -
  assume e: "exact_sums xs"
  then have "round64 (foldl add64 0 xs) = sum_list xs"
    by (intro foldl_add64_exact) (auto simp: exact_sums_def list_all_iff)
  with e show ?thesis
    by (simp add: average_def div64_def mean_def exact_sums_def)
qed

text \<open>The three arrays after the \<open>forEach\<close>, from any starting arrays.\<close>

lemma collect_arrays:
  "valences (foldl (collect m) acc trks) = valences acc @ map (metric_of valence m) (analyzed m trks)
   \<and> energies (foldl (collect m) acc trks) = energies acc @ map (metric_of energy m) (analyzed m trks)
   \<and> acousticnesses (foldl (collect m) acc trks)
       = acousticnesses acc @ map (metric_of acousticness m) (analyzed m trks)"
proof (induction trks arbitrary: acc)
  case Nil
  show ?case by (simp add: analyzed_def)
next
  case (Cons t ts)
  have step: "foldl (collect m) acc (t # ts) = foldl (collect m) (collect m acc t) ts"
    by simp
  show ?case
  proof (cases "Map_get m (track_id t)")
    case None
    then have "collect m acc t = acc" "analyzed m (t # ts) = analyzed m ts"
      by (simp_all add: collect_def analyzed_def)
    then show ?thesis
      using Cons.IH [of acc] by (simp only: step)
  next
    case (Some f)
    then have c: "valences (collect m acc t) = valences acc @ [metric_of valence m t]"
        "energies (collect m acc t) = energies acc @ [metric_of energy m t]"
        "acousticnesses (collect m acc t) = acousticnesses acc @ [metric_of acousticness m t]"
      and a: "analyzed m (t # ts) = t # analyzed m ts"
      by (simp_all add: collect_def analyzed_def metric_of_def)
    show ?thesis
      using Cons.IH [of "collect m acc t"] by (simp only: step c a) simp
  qed
qed

lemma analyzed_empty_map: "analyzed [] trks = []"
  by (simp add: analyzed_def Map_get_def)

text \<open>
  The two early returns and the guard on \<open>valences.length\<close> amount to one test: no
  occurrence has an entry.
\<close>

lemma calculateAggregateMood_eq:
  "calculateAggregateMood trks m =
     (if analyzed m trks = [] then None
      else Some \<lparr>avgValence = average (map (metric_of valence m) (analyzed m trks)),
                 avgEnergy = average (map (metric_of energy m) (analyzed m trks)),
                 avgAcousticness = average (map (metric_of acousticness m) (analyzed m trks)),
                 trackCount = length trks,
                 analyzedCount = length (analyzed m trks)\<rparr>)"
proof (cases "trks = [] \<or> m = []")
  case True
  then have "analyzed m trks = []"
    by (auto simp: analyzed_empty_map) (simp add: analyzed_def)
  with True show ?thesis
    by (auto simp: calculateAggregateMood_def Map_size_def)
next
  case False
  then show ?thesis
    by (simp add: calculateAggregateMood_def Map_size_def Let_def collect_arrays)
qed

section \<open>Lemmas on the \<open>Map\<close>\<close>

lemma keys_Map_set:
  "map fst (Map_set m k v) = (if k \<in> set (map fst m) then map fst m else map fst m @ [k])"
  by (induction m k v rule: Map_set.induct) auto

lemma map_of_Map_set: "map_of (Map_set m k v) = (map_of m)(k \<mapsto> v)"
  by (induction m k v rule: Map_set.induct) (auto simp: fun_eq_iff)

lemma Map_new_snoc: "Map_new (es @ [(k, v)]) = Map_set (Map_new es) k v"
  by (simp add: Map_new_def)

text \<open>A later entry with the same key overwrites the value.\<close>

lemma map_of_Map_new: "map_of (Map_new es) = map_of (rev es)"
proof (induction es rule: rev_induct)
  case Nil
  show ?case by (simp add: Map_new_def)
next
  case (snoc e es)
  obtain k v where e: "e = (k, v)" by (cases e)
  show ?case
    by (simp add: e Map_new_snoc map_of_Map_set snoc.IH)
qed

lemma first_occurrences_snoc:
  "first_occurrences (ks @ [k]) =
     (if k \<in> set ks then first_occurrences ks else first_occurrences ks @ [k])"
  by (simp add: first_occurrences_def)

lemma set_first_occurrences: "set (first_occurrences ks) = set ks"
  by (simp add: first_occurrences_def)

lemma distinct_first_occurrences: "distinct (first_occurrences ks)"
  by (simp add: first_occurrences_def)

text \<open>The position of an entry is that of the first entry with its key.\<close>

lemma keys_Map_new: "map fst (Map_new es) = first_occurrences (map fst es)"
proof (induction es rule: rev_induct)
  case Nil
  show ?case by (simp add: Map_new_def first_occurrences_def)
next
  case (snoc e es)
  obtain k v where e: "e = (k, v)" by (cases e)
  have "set (map fst (Map_new es)) = set (map fst es)"
    by (simp only: snoc.IH set_first_occurrences)
  then show ?case
    by (simp add: e Map_new_snoc keys_Map_set first_occurrences_snoc snoc.IH)
qed

lemma distinct_keys_Map_new: "distinct (map fst (Map_new es))"
  by (simp only: keys_Map_new distinct_first_occurrences)

lemma map_of_rev_tracks:
  "k \<in> track_id ` set trks \<Longrightarrow>
   map_of (rev (map (\<lambda>track. (track_id track, track)) trks)) k = Some (last_with_id trks k)"
proof (induction trks rule: rev_induct)
  case Nil
  then show ?case by simp
next
  case (snoc t ts)
  show ?case
  proof (cases "track_id t = k")
    case True
    then show ?thesis by (simp add: last_with_id_def)
  next
    case False
    with snoc.prems have "k \<in> track_id ` set ts" by auto
    with snoc.IH False show ?thesis by (simp add: last_with_id_def)
  qed
qed

lemma entries_by_keys:
  "distinct (map fst m) \<Longrightarrow> m = map (\<lambda>k. (k, the (map_of m k))) (map fst m)"
proof (induction m)
  case Nil
  show ?case by simp
next
  case (Cons e m)
  obtain k v where e: "e = (k, v)" by (cases e)
  from Cons.prems e have notin: "k \<notin> fst ` set m" and d: "distinct (map fst m)" by auto
  have "map (\<lambda>k'. (k', the (map_of ((k, v) # m) k'))) (map fst m)
        = map (\<lambda>k'. (k', the (map_of m k'))) (map fst m)"
    using notin by (intro map_cong) auto
  with Cons.IH [OF d] show ?case by (simp add: e)
qed

lemma uniqueTracks_eq:
  "uniqueTracks trks = map (last_with_id trks) (first_occurrences (map track_id trks))"
proof -
  let ?es = "map (\<lambda>track. (track_id track, track)) trks"
  have keys: "map fst (Map_new ?es) = first_occurrences (map track_id trks)"
    by (simp add: keys_Map_new comp_def)
  have "Map_new ?es = map (\<lambda>k. (k, the (map_of (Map_new ?es) k))) (map fst (Map_new ?es))"
    by (rule entries_by_keys) (rule distinct_keys_Map_new)
  then have "map snd (Map_new ?es)
             = map (\<lambda>k. the (map_of (rev ?es) k)) (first_occurrences (map track_id trks))"
    by (metis (no_types, lifting) keys map_of_Map_new map_map comp_def snd_conv map_cong)
  also have "\<dots> = map (last_with_id trks) (first_occurrences (map track_id trks))"
    by (rule map_cong) (simp_all add: set_first_occurrences map_of_rev_tracks)
  finally show ?thesis by (simp add: uniqueTracks_def Map_values_def)
qed

section \<open>Lemmas on the enricher\<close>

lemma analyse_iteration_eq:
  "analyse_iteration (service (track_id track)) fm track
   = Inr (case delivered (service (track_id track)) of
            None \<Rightarrow> fm
          | Some f \<Rightarrow> Map_set fm (track_id track) (to_features (track_id track) f))"
proof (cases "service (track_id track)")
  case NetworkError
  then show ?thesis by (simp add: analyse_iteration_def analyse_try_def delivered_def)
next
  case (Http status body)
  show ?thesis
  proof (cases body)
    case None
    with Http show ?thesis by (simp add: analyse_iteration_def analyse_try_def delivered_def)
  next
    case (Some features)
    show ?thesis
    proof (cases features)
      case None
      with Http Some show ?thesis
        by (simp add: analyse_iteration_def analyse_try_def delivered_def)
    next
      case inner: (Some f)
      obtain v e a d t where f: "f = FeaturesJson v e a d t" by (cases f)
      with Http Some inner show ?thesis
        by (simp add: analyse_iteration_def analyse_try_def delivered_def)
    qed
  qed
qed

lemma request_fails_delivered: "request_fails response \<longleftrightarrow> delivered response = None"
  by (auto simp: request_fails_def delivered_def split: http.splits option.splits)

text \<open>The loop as a function of the state, every iteration resolving.\<close>

lemma enrich_loop_Cons:
  "enrich_loop service (u # us) s =
     enrich_loop service us
       \<lparr>featuresMap =
          (case delivered (service (track_id u)) of
             None \<Rightarrow> featuresMap s
           | Some f \<Rightarrow> Map_set (featuresMap s) (track_id u) (to_features (track_id u) f)),
        requested = requested s @ [track_id u]\<rparr>"
  by (simp add: analyse_iteration_eq)

lemma enrich_loop_resolves: "\<exists>s'. enrich_loop service us s = Inr s'"
proof (induction us arbitrary: s)
  case Nil
  show ?case by simp
next
  case (Cons u us)
  show ?case unfolding enrich_loop_Cons by (rule Cons.IH)
qed

lemma enrich_loop_requested:
  "enrich_loop service us s = Inr s' \<Longrightarrow> requested s' = requested s @ map track_id us"
proof (induction us arbitrary: s)
  case Nil
  then show ?case by simp
next
  case (Cons u us)
  from Cons.prems have "enrich_loop service us
       \<lparr>featuresMap =
          (case delivered (service (track_id u)) of
             None \<Rightarrow> featuresMap s
           | Some f \<Rightarrow> Map_set (featuresMap s) (track_id u) (to_features (track_id u) f)),
        requested = requested s @ [track_id u]\<rparr> = Inr s'"
    by (simp only: enrich_loop_Cons)
  from Cons.IH [OF this] show ?case by simp
qed

lemma enrich_loop_get:
  "enrich_loop service us s = Inr s' \<Longrightarrow>
   Map_get (featuresMap s') k =
     (if k \<in> track_id ` set us \<and> delivered (service k) \<noteq> None
      then map_option (to_features k) (delivered (service k))
      else Map_get (featuresMap s) k)"
proof (induction us arbitrary: s)
  case Nil
  then show ?case by simp
next
  case (Cons u us)
  let ?s1 = "\<lparr>featuresMap =
          (case delivered (service (track_id u)) of
             None \<Rightarrow> featuresMap s
           | Some f \<Rightarrow> Map_set (featuresMap s) (track_id u) (to_features (track_id u) f)),
        requested = requested s @ [track_id u]\<rparr>"
  from Cons.prems have loop: "enrich_loop service us ?s1 = Inr s'"
    by (simp only: enrich_loop_Cons)
  have fm: "Map_get (featuresMap ?s1) k =
     (if k = track_id u \<and> delivered (service k) \<noteq> None
      then map_option (to_features k) (delivered (service k))
      else Map_get (featuresMap s) k)"
    by (auto simp: Map_get_def map_of_Map_set split: option.splits)
  show ?case
    unfolding Cons.IH [OF loop] fm by auto
qed

lemma last_with_id_in:
  assumes "k \<in> track_id ` set trks"
  shows "last_with_id trks k \<in> set trks \<and> track_id (last_with_id trks k) = k"
proof -
  let ?same = "filter (\<lambda>track. track_id track = k) trks"
  from assms have "?same \<noteq> []" by (auto simp: filter_empty_conv)
  then have "last ?same \<in> set ?same" by (rule last_in_set)
  then show ?thesis by (simp add: last_with_id_def)
qed

lemma uniqueTracks_ids:
  "map track_id (uniqueTracks trks) = first_occurrences (map track_id trks)"
proof -
  have "map (\<lambda>k. track_id (last_with_id trks k)) (first_occurrences (map track_id trks))
        = map (\<lambda>k. k) (first_occurrences (map track_id trks))"
    by (rule map_cong) (simp_all add: set_first_occurrences last_with_id_in)
  then show ?thesis by (simp add: uniqueTracks_eq comp_def)
qed

lemma uniqueTracks_id_set: "track_id ` set (uniqueTracks trks) = track_id ` set trks"
proof -
  have "set (map track_id (uniqueTracks trks)) = set (map track_id trks)"
    by (simp only: uniqueTracks_ids set_first_occurrences)
  then show ?thesis by simp
qed

lemma getSoundStatAudioFeatures_get:
  "getSoundStatAudioFeatures service trks = Inr s \<Longrightarrow>
   Map_get (featuresMap s) k =
     (if k \<in> track_id ` set trks then map_option (to_features k) (delivered (service k)) else None)"
proof -
  assume "getSoundStatAudioFeatures service trks = Inr s"
  then have s: "enrich_loop service (uniqueTracks trks) \<lparr>featuresMap = [], requested = []\<rparr> = Inr s"
    by (simp add: getSoundStatAudioFeatures_def)
  have empty: "Map_get (featuresMap \<lparr>featuresMap = [], requested = []\<rparr>) k = None"
    by (simp add: Map_get_def)
  show ?thesis
    unfolding enrich_loop_get [OF s] uniqueTracks_id_set empty
    by (cases "delivered (service k)") simp_all
qed

lemma getSoundStatAudioFeatures_resolves: "\<exists>s. getSoundStatAudioFeatures service trks = Inr s"
  unfolding getSoundStatAudioFeatures_def by (rule enrich_loop_resolves)

lemma getSoundStatAudioFeatures_requested:
  "getSoundStatAudioFeatures service trks = Inr s \<Longrightarrow> requested s = map track_id (uniqueTracks trks)"
  unfolding getSoundStatAudioFeatures_def by (drule enrich_loop_requested) simp

lemma plays_analyzed:
  "plays (analyzed m trks) k = (if Map_get m k = None then 0 else plays trks k)"
  by (induction trks) (auto simp: plays_def analyzed_def)

lemma same_mood_metrics_get:
  assumes "same_mood_metrics m1 m2"
  shows "(Map_get m1 k = None \<longleftrightarrow> Map_get m2 k = None)
     \<and> (Map_get m1 k \<noteq> None \<longrightarrow>
          valence (the (Map_get m1 k)) = valence (the (Map_get m2 k))
          \<and> energy (the (Map_get m1 k)) = energy (the (Map_get m2 k))
          \<and> acousticness (the (Map_get m1 k)) = acousticness (the (Map_get m2 k)))"
proof (cases "k \<in> set (map fst m1) \<union> set (map fst m2)")
  case True
  with assms have "case (Map_get m1 k, Map_get m2 k) of
          (Some f, Some g) \<Rightarrow>
            valence f = valence g \<and> energy f = energy g \<and> acousticness f = acousticness g
        | _ \<Rightarrow> False"
    unfolding same_mood_metrics_def by blast
  then show ?thesis by (auto split: option.splits)
next
  case False
  then have "Map_get m1 k = None" "Map_get m2 k = None"
    by (simp_all add: Map_get_def map_of_eq_None_iff)
  then show ?thesis by simp
qed

section \<open>The claims\<close>

subsection \<open>C1: the order of the rules\<close>

text \<open>
  The claim C1 as it is written names three inputs. At the second one, avgValence = 0.65,
  avgEnergy = 0.75 and avgAcousticness = 0.1, it expects EARTH; the first rule matches
  there (0.75 > 0.7 and 0.65 > 0.6), and \<open>mapToElement\<close> does not return EARTH.
\<close>

theorem mapToElement_misses_EARTH:
  "name (mapToElement \<lparr>avgValence = 0.65, avgEnergy = 0.75, avgAcousticness = 0.1,
                       trackCount = 1, analyzedCount = 1\<rparr> [] ''2026-01-01T00:00:00.000Z'')
   \<noteq> EARTH"
  by (simp add: mapToElement_def)

text \<open>
  Claim C1, amended: for every summary, \<open>mapToElement\<close> returns the label of the first
  matching rule in the order FIRE, WATER, AIR, AETHER, and EARTH when none matches;
  avgEnergy = 0.45 with avgValence = 0.65 yields AIR; avgValence = 0.65 with
  avgEnergy = 0.75 and avgAcousticness = 0.1 yields FIRE; every summary with
  avgEnergy > 0.7 and avgValence > 0.6 yields FIRE, whatever its acousticness.
\<close>

theorem mapToElement_rules:
  "name (mapToElement md trks now) = spec_classify md
   \<and> name (mapToElement \<lparr>avgValence = 0.65, avgEnergy = 0.45, avgAcousticness = a,
                          trackCount = n, analyzedCount = c\<rparr> trks now) = AIR
   \<and> name (mapToElement \<lparr>avgValence = 0.65, avgEnergy = 0.75, avgAcousticness = 0.1,
                          trackCount = n, analyzedCount = c\<rparr> trks now) = FIRE
   \<and> (avgEnergy md > 0.7 \<and> avgValence md > 0.6 \<longrightarrow> name (mapToElement md trks now) = FIRE)"
  by (simp add: mapToElement_def spec_classify_def spec_rules_def)

theorem mapToElement_rules_witness:
  "avgEnergy \<lparr>avgValence = 0.9, avgEnergy = 0.8, avgAcousticness = 0.95,
              trackCount = 3, analyzedCount = 2\<rparr> > 0.7
   \<and> avgValence \<lparr>avgValence = 0.9, avgEnergy = 0.8, avgAcousticness = 0.95,
              trackCount = 3, analyzedCount = 2\<rparr> > 0.6
   \<and> name (mapToElement \<lparr>avgValence = 0.9, avgEnergy = 0.8, avgAcousticness = 0.95,
              trackCount = 3, analyzedCount = 2\<rparr> [] []) = FIRE"
  using mapToElement_rules [of "\<lparr>avgValence = 0.9, avgEnergy = 0.8, avgAcousticness = 0.95,
              trackCount = 3, analyzedCount = 2\<rparr>" "[]" "[]" 0 0 0,
           THEN conjunct2, THEN conjunct2, THEN conjunct2]
  by simp

subsection \<open>C2: the means when every track has features\<close>

text \<open>
  The claim C2 as it is written says that each average is the arithmetic mean. For two
  tracks with the valences 0.4 and 0.8 the sum of the two doubles rounds up, and the
  source returns 0.6000000000000001, which is \<open>5404319552844596 / 2 ^ 53\<close>; the
  arithmetic mean is 0.6.
\<close>

theorem average_is_rounded:
  "list_all (\<lambda>track. Map_get features_04_08 (track_id track) \<noteq> None) [track_a1, track_b]
   \<and> map_option avgValence (calculateAggregateMood [track_a1, track_b] features_04_08)
     = Some (5404319552844596 / 9007199254740992)
   \<and> mean (map (metric_of valence features_04_08) [track_a1, track_b]) = 3 / 5
   \<and> map_option avgValence (calculateAggregateMood [track_a1, track_b] features_04_08)
     \<noteq> Some (mean (map (metric_of valence features_04_08) [track_a1, track_b]))"
  by (simp add: example_defs aggregate_defs average_examples mean_def metric_of_def)

text \<open>
  Claim C2, amended: for a sequence of tracks that is not empty and whose identifiers
  all have an entry in a features mapping with metrics in [0, 1],
  \<open>calculateAggregateMood\<close> returns a summary whose analyzedCount and trackCount are the
  length of the sequence and whose three averages are the binary64 averages of the
  metric over all tracks of the sequence: the sum from left to right, divided by the
  length, each operation rounded to the nearest double. Where no addition rounds, the
  average is the double nearest to the arithmetic mean.
\<close>

theorem aggregate_all_matched:
  assumes "trks \<noteq> []" and "\<forall>track \<in> set trks. Map_get m (track_id track) \<noteq> None"
    and "unit_metrics m"
  shows "calculateAggregateMood trks m =
           Some \<lparr>avgValence = average (map (metric_of valence m) trks),
                 avgEnergy = average (map (metric_of energy m) trks),
                 avgAcousticness = average (map (metric_of acousticness m) trks),
                 trackCount = length trks,
                 analyzedCount = length trks\<rparr>
     \<and> (\<forall>f \<in> {valence, energy, acousticness}.
          exact_sums (map (metric_of f m) trks) \<longrightarrow>
          average (map (metric_of f m) trks) = number (mean (map (metric_of f m) trks)))"
proof -
  from assms(2) have "analyzed m trks = trks"
    by (simp add: analyzed_def)
  with assms(1) show ?thesis
    by (simp add: calculateAggregateMood_eq average_exact)
qed

theorem aggregate_all_matched_witness:
  "[track_a1, track_b] \<noteq> []
   \<and> list_all (\<lambda>track. Map_get features_ab (track_id track) \<noteq> None) [track_a1, track_b]
   \<and> unit_metrics features_ab
   \<and> map (metric_of valence features_ab) [track_a1, track_b] = [0.75, 0.25]
   \<and> exact_sums [0.75, 0.25]
   \<and> calculateAggregateMood [track_a1, track_b] features_ab =
       Some \<lparr>avgValence = 1 / 2, avgEnergy = 1 / 2, avgAcousticness = 1 / 2,
             trackCount = 2, analyzedCount = 2\<rparr>
   \<and> number (mean [0.75, 0.25]) = 1 / 2"
proof -
  have h: "[track_a1, track_b] \<noteq> []"
    "\<forall>track \<in> set [track_a1, track_b]. Map_get features_ab (track_id track) \<noteq> None"
    "unit_metrics features_ab"
    by (simp_all add: example_defs Map_get_def unit_metrics_def)
  have e: "exact_sums [0.75, 0.25]"
    by (simp add: exact_sums_def number_defs upt_rec)
  have n: "number (mean [0.75, 0.25]) = 1 / 2"
    by (simp add: mean_def number_defs)
  from aggregate_all_matched [OF h] h e n show ?thesis
    by (simp add: example_defs Map_get_def metric_of_def average_examples)
qed

subsection \<open>C3: duplicate plays\<close>

text \<open>
  The claim C3 as it is written says that removing the duplicate occurrences of an
  identifier leaves the averages unchanged. With two plays of one track and one play of
  another the average valence is 0.5833333333333334; with one play of each it is 0.5.
\<close>

theorem duplicates_change_means:
  "map_option avgValence (calculateAggregateMood [track_a1, track_a2, track_b] features_ab)
   \<noteq> map_option avgValence (calculateAggregateMood [track_a1, track_b] features_ab)"
  by (simp add: example_defs aggregate_defs average_examples)

text \<open>
  Claim C3, amended: the aggregator counts occurrences. Whenever it returns a summary
  from a features mapping with metrics in [0, 1], each average is the binary64 average
  (the sum from left to right, divided by the number of values, each operation rounded)
  of the metric over all occurrences, with repetition, of tracks whose identifier has an
  entry, analyzedCount is the number of these occurrences, and an identifier with an
  entry is counted as often as it occurs in the input.
\<close>

theorem aggregate_counts_occurrences:
  assumes "calculateAggregateMood trks m = Some md" and "unit_metrics m"
  shows "avgValence md = average (map (metric_of valence m) (analyzed m trks))
   \<and> avgEnergy md = average (map (metric_of energy m) (analyzed m trks))
   \<and> avgAcousticness md = average (map (metric_of acousticness m) (analyzed m trks))
   \<and> analyzedCount md = length (analyzed m trks)
   \<and> (\<forall>k. plays (analyzed m trks) k = (if Map_get m k = None then 0 else plays trks k))"
  using assms(1) by (auto simp: calculateAggregateMood_eq plays_analyzed split: if_splits)

theorem aggregate_counts_occurrences_witness:
  "calculateAggregateMood [track_a1, track_a2, track_b, track_c] features_ab =
       Some \<lparr>avgValence = 5254199565265579 / 9007199254740992,
             avgEnergy = 5254199565265579 / 9007199254740992,
             avgAcousticness = 7505999378950827 / 18014398509481984,
             trackCount = 4, analyzedCount = 3\<rparr>
   \<and> unit_metrics features_ab
   \<and> analyzed features_ab [track_a1, track_a2, track_b, track_c] = [track_a1, track_a2, track_b]
   \<and> plays (analyzed features_ab [track_a1, track_a2, track_b, track_c]) ''a'' = 2"
proof -
  have c: "calculateAggregateMood [track_a1, track_a2, track_b, track_c] features_ab =
       Some \<lparr>avgValence = 5254199565265579 / 9007199254740992,
             avgEnergy = 5254199565265579 / 9007199254740992,
             avgAcousticness = 7505999378950827 / 18014398509481984,
             trackCount = 4, analyzedCount = 3\<rparr>"
    by (simp add: example_defs aggregate_defs average_examples)
  have u: "unit_metrics features_ab"
    by (simp add: example_defs unit_metrics_def)
  have a: "analyzed features_ab [track_a1, track_a2, track_b, track_c] = [track_a1, track_a2, track_b]"
    by (simp add: example_defs analyzed_def Map_get_def)
  have p: "Map_get features_ab ''a'' \<noteq> None" "plays [track_a1, track_a2, track_b, track_c] ''a'' = 2"
    by (simp_all add: example_defs Map_get_def plays_def)
  from aggregate_counts_occurrences [OF c u] p a c u show ?thesis by simp
qed

subsection \<open>C4: the unique tracks\<close>

text \<open>
  The claim C4 as it is written says that the first track bearing an identifier is the
  one kept. Of two plays of one track the list holds the second, and not the first.
\<close>

theorem uniqueTracks_keeps_last_not_first:
  "uniqueTracks [track_a1, track_a2] = [track_a2]
   \<and> hd [track_a1, track_a2] \<notin> set (uniqueTracks [track_a1, track_a2])"
  by (simp add: uniqueTracks_def Map_new_def Map_values_def track_a1_def track_a2_def)

text \<open>
  Claim C4, amended: the list of unique tracks holds, for each identifier of the input
  and in the order in which the identifiers first occur, the last track of the input
  that bears it; the identifiers of the list are distinct and are those of the input;
  and the requests issued are those for the identifiers of the list, one each, in order.
\<close>

theorem uniqueTracks_last_wins:
  "uniqueTracks trks = map (last_with_id trks) (first_occurrences (map track_id trks))
   \<and> map track_id (uniqueTracks trks) = first_occurrences (map track_id trks)
   \<and> distinct (map track_id (uniqueTracks trks))
   \<and> set (map track_id (uniqueTracks trks)) = set (map track_id trks)
   \<and> (\<exists>s. getSoundStatAudioFeatures service trks = Inr s
          \<and> requested s = map track_id (uniqueTracks trks))"
proof -
  have "\<exists>s. getSoundStatAudioFeatures service trks = Inr s
          \<and> requested s = map track_id (uniqueTracks trks)"
    using getSoundStatAudioFeatures_resolves [of service trks]
    by (auto dest: getSoundStatAudioFeatures_requested)
  then show ?thesis
    by (simp only: uniqueTracks_ids distinct_first_occurrences set_first_occurrences
          uniqueTracks_eq [symmetric] simp_thms)
qed

subsection \<open>C5: when there is no summary\<close>

text \<open>
  Claim C5: \<open>calculateAggregateMood\<close> returns no summary exactly when the sequence of
  tracks is empty or no track of it has an entry in the features mapping; so it returns
  none when the mapping is empty, and a summary in every other case.
\<close>

theorem aggregate_absent_iff:
  "(calculateAggregateMood trks m = None
      \<longleftrightarrow> trks = [] \<or> (\<forall>track \<in> set trks. Map_get m (track_id track) = None))
   \<and> (Map_size m = 0 \<longrightarrow> calculateAggregateMood trks m = None)
   \<and> (\<not> (trks = [] \<or> (\<forall>track \<in> set trks. Map_get m (track_id track) = None))
        \<longrightarrow> (\<exists>md. calculateAggregateMood trks m = Some md))"
proof -
  have iff: "calculateAggregateMood trks m = None
      \<longleftrightarrow> trks = [] \<or> (\<forall>track \<in> set trks. Map_get m (track_id track) = None)"
    by (auto simp: calculateAggregateMood_eq analyzed_def filter_empty_conv)
  have "Map_size m = 0 \<longrightarrow> calculateAggregateMood trks m = None"
    by (simp add: calculateAggregateMood_def)
  with iff show ?thesis by auto
qed

theorem aggregate_absent_iff_witness:
  "calculateAggregateMood [track_c] features_ab = None
   \<and> list_all (\<lambda>track. Map_get features_ab (track_id track) = None) [track_c]
   \<and> Map_size ([] :: (string, AudioFeatures) js_map) = 0
   \<and> calculateAggregateMood [track_a1] [] = None
   \<and> [track_b, track_c] \<noteq> []
   \<and> Map_get features_ab (track_id track_b) \<noteq> None
   \<and> (\<exists>md. calculateAggregateMood [track_b, track_c] features_ab = Some md)"
  using aggregate_absent_iff [of "[track_c]" features_ab]
    aggregate_absent_iff [of "[track_a1]" "[]"]
    aggregate_absent_iff [of "[track_b, track_c]" features_ab]
  by (simp add: example_defs Map_get_def Map_size_def)

subsection \<open>C6: a failed request is skipped\<close>

text \<open>
  Claim C6: \<open>getSoundStatAudioFeatures\<close> always resolves. In the mapping it returns, the
  identifier of every track whose request fails is absent, the identifier of every
  other track has the features its response delivers, and every identifier of the input
  is requested.
\<close>

theorem enricher_skips_failures:
  "\<exists>s. getSoundStatAudioFeatures service trks = Inr s
     \<and> (\<forall>track \<in> set trks. request_fails (service (track_id track)) \<longrightarrow>
           Map_get (featuresMap s) (track_id track) = None)
     \<and> (\<forall>track \<in> set trks. \<not> request_fails (service (track_id track)) \<longrightarrow>
           Map_get (featuresMap s) (track_id track) \<noteq> None
           \<and> Map_get (featuresMap s) (track_id track)
               = map_option (to_features (track_id track)) (delivered (service (track_id track))))
     \<and> set (requested s) = track_id ` set trks"
proof -
  obtain s where s: "getSoundStatAudioFeatures service trks = Inr s"
    using getSoundStatAudioFeatures_resolves by blast
  have req: "set (requested s) = track_id ` set trks"
    using uniqueTracks_id_set [of trks]
    by (simp add: getSoundStatAudioFeatures_requested [OF s])
  have get: "Map_get (featuresMap s) (track_id track)
               = map_option (to_features (track_id track)) (delivered (service (track_id track)))"
    if "track \<in> set trks" for track
    using that by (simp add: getSoundStatAudioFeatures_get [OF s])
  have "\<forall>track \<in> set trks. request_fails (service (track_id track)) \<longrightarrow>
           Map_get (featuresMap s) (track_id track) = None"
    by (simp add: get request_fails_delivered)
  moreover have "\<forall>track \<in> set trks. \<not> request_fails (service (track_id track)) \<longrightarrow>
           Map_get (featuresMap s) (track_id track) \<noteq> None
           \<and> Map_get (featuresMap s) (track_id track)
               = map_option (to_features (track_id track)) (delivered (service (track_id track)))"
    by (simp add: get request_fails_delivered)
  ultimately show ?thesis using s req by blast
qed

theorem enricher_skips_failures_witness:
  "\<exists>s. getSoundStatAudioFeatures service_404_a [track_a1, track_b] = Inr s
     \<and> request_fails (service_404_a (track_id track_a1))
     \<and> Map_get (featuresMap s) ''a'' = None
     \<and> \<not> request_fails (service_404_a (track_id track_b))
     \<and> Map_get (featuresMap s) ''b''
         = Some \<lparr>features_id = ''b'', valence = 0.25, energy = 0.25, acousticness = 0.75,
                 danceability = 0.5, tempo = 90\<rparr>
     \<and> set (requested s) = {''a'', ''b''}"
  using enricher_skips_failures [of service_404_a "[track_a1, track_b]"]
  by (auto simp: service_404_a_def track_a1_def track_b_def request_fails_def delivered_def ok_def)

subsection \<open>C7: a failed history request\<close>

text \<open>
  Claim C7: when the credentials are configured and an access token is held, a status
  that is not a success from the recently-played endpoint makes \<open>getRecentlyPlayed\<close>
  resolve to the empty list; the analysis then yields nothing, no file is written and
  the exit status is 0, as for a response with no items.
\<close>

theorem history_failure_degrades:
  assumes "\<not> credentials_missing env"
    and "getAccessToken (token_response w) = Inr accessToken"
    and "\<not> falsy accessToken"
    and "history_response w = Http status body" and "\<not> ok status"
  shows "getRecentlyPlayed accessToken (history_response w) = Inr []
     \<and> analyzeDailyMood w = Inr None
     \<and> main env w = \<lparr>exit_status = 0, current_mood_json = None\<rparr>
     \<and> main env w = main env (w\<lparr>history_response := Http 200 (Some (Some []))\<rparr>)"
proof -
  have g: "getRecentlyPlayed accessToken (Http status body) = Inr []"
    using assms(3,5) by (simp add: getRecentlyPlayed_def recentlyPlayed_try_def)
  have e: "getRecentlyPlayed accessToken (Http 200 (Some (Some []))) = Inr []"
    using assms(3) by (simp add: getRecentlyPlayed_def recentlyPlayed_try_def ok_def)
  have a: "analyzeDailyMood w = Inr None"
    using assms(2,4) g by (simp add: analyzeDailyMood_def)
  have a': "analyzeDailyMood (w\<lparr>history_response := Http 200 (Some (Some []))\<rparr>) = Inr None"
    using assms(2) e by (simp add: analyzeDailyMood_def)
  show ?thesis
    using assms(1,4) g a a' by (simp add: main_def)
qed

theorem history_failure_degrades_witness:
  "\<not> credentials_missing env_ok
   \<and> getAccessToken (token_response world_401) = Inr (Some ''token'')
   \<and> \<not> falsy (Some ''token'')
   \<and> history_response world_401 = Http 401 None
   \<and> \<not> ok 401
   \<and> getRecentlyPlayed (Some ''token'') (history_response world_401) = Inr []
   \<and> main env_ok world_401 = \<lparr>exit_status = 0, current_mood_json = None\<rparr>"
proof -
  have h: "\<not> credentials_missing env_ok"
    "getAccessToken (token_response world_401) = Inr (Some ''token'')"
    "\<not> falsy (Some ''token'')"
    "history_response world_401 = Http 401 None"
    "\<not> ok 401"
    by (simp_all add: credentials_missing_def env_ok_def falsy_def getAccessToken_def world_401_def
          ok_def)
  from history_failure_degrades [OF h] h show ?thesis by simp
qed

subsection \<open>C8: the counts of a summary\<close>

text \<open>
  Claim C8: every summary that \<open>calculateAggregateMood\<close> returns has an analyzedCount
  of at least 1 and at most its trackCount.
\<close>

theorem aggregate_counts:
  assumes "calculateAggregateMood trks m = Some md"
  shows "analyzedCount md \<le> trackCount md \<and> 1 \<le> analyzedCount md"
proof -
  from assms have ne: "analyzed m trks \<noteq> []"
    and md: "analyzedCount md = length (analyzed m trks)" "trackCount md = length trks"
    by (auto simp: calculateAggregateMood_eq split: if_splits)
  have "length (analyzed m trks) \<le> length trks"
    by (simp add: analyzed_def)
  moreover from ne have "1 \<le> length (analyzed m trks)"
    by (cases "analyzed m trks") simp_all
  ultimately show ?thesis by (simp add: md)
qed

theorem aggregate_counts_witness:
  "calculateAggregateMood [track_a1, track_a2, track_b, track_c] features_ab =
       Some \<lparr>avgValence = 5254199565265579 / 9007199254740992,
             avgEnergy = 5254199565265579 / 9007199254740992,
             avgAcousticness = 7505999378950827 / 18014398509481984,
             trackCount = 4, analyzedCount = 3\<rparr>
   \<and> (3::nat) \<le> 4 \<and> (1::nat) \<le> 3"
proof -
  have c: "calculateAggregateMood [track_a1, track_a2, track_b, track_c] features_ab =
       Some \<lparr>avgValence = 5254199565265579 / 9007199254740992,
             avgEnergy = 5254199565265579 / 9007199254740992,
             avgAcousticness = 7505999378950827 / 18014398509481984,
             trackCount = 4, analyzedCount = 3\<rparr>"
    by (simp add: example_defs aggregate_defs average_examples)
  from aggregate_counts [OF c] c show ?thesis by simp
qed

subsection \<open>C9: what the classifier passes through\<close>

text \<open>
  Claim C9: the result of \<open>mapToElement\<close> holds the summary and the track list it was
  given, unchanged, and the time read from the clock; its gradient and description are
  fixed by its label.
\<close>

theorem mapToElement_frame:
  "mood (mapToElement md trks now) = md
   \<and> tracks (mapToElement md trks now) = trks
   \<and> date (mapToElement md trks now) = now
   \<and> (name (mapToElement md trks now) = name (mapToElement md' trks' now') \<longrightarrow>
        gradient (mapToElement md trks now) = gradient (mapToElement md' trks' now')
        \<and> description (mapToElement md trks now) = description (mapToElement md' trks' now'))"
  by (simp add: mapToElement_def)

theorem mapToElement_frame_witness:
  "name (mapToElement \<lparr>avgValence = 0.9, avgEnergy = 0.8, avgAcousticness = 0.1,
                       trackCount = 3, analyzedCount = 2\<rparr> [track_a1] ''2026-01-02T12:00:00.000Z'')
   = name (mapToElement \<lparr>avgValence = 0.7, avgEnergy = 0.9, avgAcousticness = 0.6,
                       trackCount = 1, analyzedCount = 1\<rparr> [track_b] ''2026-01-03T12:00:00.000Z'')
   \<and> gradient (mapToElement \<lparr>avgValence = 0.9, avgEnergy = 0.8, avgAcousticness = 0.1,
                       trackCount = 3, analyzedCount = 2\<rparr> [track_a1] ''2026-01-02T12:00:00.000Z'')
   = gradient (mapToElement \<lparr>avgValence = 0.7, avgEnergy = 0.9, avgAcousticness = 0.6,
                       trackCount = 1, analyzedCount = 1\<rparr> [track_b] ''2026-01-03T12:00:00.000Z'')"
proof -
  have n: "name (mapToElement \<lparr>avgValence = 0.9, avgEnergy = 0.8, avgAcousticness = 0.1,
                       trackCount = 3, analyzedCount = 2\<rparr> [track_a1] ''2026-01-02T12:00:00.000Z'')
   = name (mapToElement \<lparr>avgValence = 0.7, avgEnergy = 0.9, avgAcousticness = 0.6,
                       trackCount = 1, analyzedCount = 1\<rparr> [track_b] ''2026-01-03T12:00:00.000Z'')"
    by (simp add: mapToElement_def)
  from mapToElement_frame [THEN conjunct2, THEN conjunct2, THEN conjunct2, rule_format, OF n] n
  show ?thesis by simp
qed

subsection \<open>C10: danceability and tempo\<close>

text \<open>
  Claim C10: for two features mappings with the same identifiers and, for each, the
  same valence, energy and acousticness, \<open>calculateAggregateMood\<close> returns the same
  result, and so does \<open>mapToElement\<close> on it.
\<close>

theorem danceability_tempo_unused:
  assumes "same_mood_metrics m1 m2"
  shows "calculateAggregateMood trks m1 = calculateAggregateMood trks m2
     \<and> map_option (\<lambda>md. mapToElement md trks now) (calculateAggregateMood trks m1)
       = map_option (\<lambda>md. mapToElement md trks now) (calculateAggregateMood trks m2)"
proof -
  have a: "analyzed m1 trks = analyzed m2 trks"
    unfolding analyzed_def
    by (rule filter_cong) (simp_all add: same_mood_metrics_get [OF assms])
  have same: "metric_of f m1 track = metric_of f m2 track"
    if "track \<in> set (analyzed m2 trks)" and "f = valence \<or> f = energy \<or> f = acousticness"
    for f track
  proof -
    from that(1) have "Map_get m2 (track_id track) \<noteq> None"
      by (simp add: analyzed_def)
    with same_mood_metrics_get [OF assms, of "track_id track"] that(2)
    show ?thesis by (auto simp: metric_of_def)
  qed
  have eqs: "map (metric_of valence m1) (analyzed m2 trks) = map (metric_of valence m2) (analyzed m2 trks)"
    "map (metric_of energy m1) (analyzed m2 trks) = map (metric_of energy m2) (analyzed m2 trks)"
    "map (metric_of acousticness m1) (analyzed m2 trks) = map (metric_of acousticness m2) (analyzed m2 trks)"
    by (rule map_cong, rule refl, rule same, assumption, simp)+
  have "calculateAggregateMood trks m1 = calculateAggregateMood trks m2"
    by (simp only: calculateAggregateMood_eq a eqs)
  then show ?thesis by simp
qed

theorem danceability_tempo_unused_witness:
  "same_mood_metrics features_ab features_ab'
   \<and> features_ab \<noteq> features_ab'
   \<and> calculateAggregateMood [track_a1, track_a2, track_b, track_c] features_ab
     = calculateAggregateMood [track_a1, track_a2, track_b, track_c] features_ab'"
proof -
  have s: "same_mood_metrics features_ab features_ab'"
    by (simp add: same_mood_metrics_def example_defs Map_get_def)
  have "features_ab \<noteq> features_ab'"
    by (simp add: example_defs)
  with s danceability_tempo_unused [OF s, of "[track_a1, track_a2, track_b, track_c]"]
  show ?thesis by simp
qed

end
